theory Spec2Isabelle
  imports Complex_Main "HOL-Library.AList" "HOL-Library.List_Lexorder"
begin

section \<open>The census pipeline of \<^verbatim>\<open>dags/mlflow-dag.py\<close>\<close>

text \<open>
  The workflow \<^verbatim>\<open>using_gcs_for_xcom_ds\<close> chains four tasks:
  \<^verbatim>\<open>load_data\<close>, \<^verbatim>\<open>preprocessing\<close>, \<^verbatim>\<open>feature_engineering\<close> and
  \<^verbatim>\<open>cross_validation\<close>. Each task body is a sequence of calls into pandas, numpy,
  scikit-learn and mlflow. The definitions below follow the task bodies line by line; each
  library call is a HOL function that computes what the call computes with the arguments the
  task passes (the defaults of every argument the task leaves out are written out).
\<close>

subsection \<open>Python values\<close>

text \<open>
  A Python \<^verbatim>\<open>str\<close> is a sequence of Unicode code points, here a list of naturals;
  \<open>lit\<close> turns a literal of the source into such a sequence. A cell of a dataframe is
  one of the two missing values, the float \<^verbatim>\<open>NaN\<close> (\<open>NA\<close>, the missing value of a
  numeric column) and Python's \<^verbatim>\<open>None\<close> (\<open>PyNone\<close>, the missing value of an
  \<^verbatim>\<open>object\<close> column), or a string or an integer, which is what the census table holds.
\<close>

type_synonym py_str = "nat list"

definition lit :: "string \<Rightarrow> py_str" where
  "lit s = map of_char s"

datatype cell = NA | PyNone | Str py_str | Num int

datatype py_error = KeyError | AttributeError | TypeError | ValueError

subsection \<open>pandas.cut\<close>

text \<open>
  \<^verbatim>\<open>pd.cut(x, bins=[...], labels=[...])\<close> with a list of bin edges and the defaults
  \<^verbatim>\<open>right=True, include_lowest=False\<close>: the edges must increase and there must be one
  label per interval, else \<^verbatim>\<open>ValueError\<close>. A value is located with
  \<^verbatim>\<open>bins.searchsorted(x, side='left')\<close>, the number of edges strictly below it; the
  positions \<open>0\<close> and \<open>len(bins)\<close> are outside every interval and give a missing value, any
  other position \<open>i\<close> gives \<open>labels[i - 1]\<close>. \<^verbatim>\<open>NaN\<close> stays \<^verbatim>\<open>NaN\<close>, and
  neither a string nor \<^verbatim>\<open>None\<close> can be compared with the edges (\<^verbatim>\<open>TypeError\<close>).
\<close>

definition searchsorted_left :: "int list \<Rightarrow> int \<Rightarrow> nat" where
  "searchsorted_left bins x = length (takeWhile (\<lambda>b. b < x) bins)"

definition cut_value :: "int list \<Rightarrow> int list \<Rightarrow> int \<Rightarrow> cell" where
  "cut_value bins labels x =
     (let ids = searchsorted_left bins x
      in if ids = length bins \<or> ids = 0 then NA else Num (labels ! (ids - 1)))"

fun cut_cell :: "int list \<Rightarrow> int list \<Rightarrow> cell \<Rightarrow> py_error + cell" where
  "cut_cell bins labels NA = Inr NA"
| "cut_cell bins labels (Num x) = Inr (cut_value bins labels x)"
| "cut_cell bins labels (Str s) = Inl TypeError"
| "cut_cell bins labels PyNone = Inl TypeError"

fun series_apply :: "('a \<Rightarrow> py_error + 'b) \<Rightarrow> 'a list \<Rightarrow> py_error + 'b list" where
  "series_apply f [] = Inr []"
| "series_apply f (x # xs) =
     (case f x of
        Inl e \<Rightarrow> Inl e
      | Inr v \<Rightarrow> (case series_apply f xs of Inl e \<Rightarrow> Inl e | Inr vs \<Rightarrow> Inr (v # vs)))"

definition pd_cut :: "cell list \<Rightarrow> int list \<Rightarrow> int list \<Rightarrow> py_error + cell list" where
  "pd_cut x bins labels =
     (if \<not> sorted_wrt (<) bins then Inl ValueError
      else if Suc (length labels) \<noteq> length bins then Inl ValueError
      else series_apply (cut_cell bins labels) x)"

text \<open>The call of \<^verbatim>\<open>feature_engineering\<close>, line 104.\<close>

definition age_bins :: "cell list \<Rightarrow> py_error + cell list" where
  "age_bins age = pd_cut age [16, 29, 39, 49, 59, 100] [1, 2, 3, 4, 5]"

subsection \<open>Dataframes\<close>

text \<open>
  A \<^verbatim>\<open>pandas.DataFrame\<close>: the column labels with the dtype of each column
  (\<^verbatim>\<open>object\<close>, a numeric dtype or \<^verbatim>\<open>category\<close>), and the rows in index order, each
  row giving the cell under every label. In a dataframe that pandas builds the labels of
  every row are the column labels, the labels that \<^verbatim>\<open>df[col]\<close> selects one column by are
  distinct, and a string is held in an \<^verbatim>\<open>object\<close> column only.
\<close>

datatype dtype = Object | Numeric | Category

type_synonym row = "(py_str \<times> cell) list"

record dataframe =
  dtypes :: "(py_str \<times> dtype) list"
  rows :: "row list"

definition columns :: "dataframe \<Rightarrow> py_str list" where
  "columns df = map fst (dtypes df)"

fun is_Str :: "cell \<Rightarrow> bool" where
  "is_Str (Str s) = True"
| "is_Str c = False"

definition aligned :: "dataframe \<Rightarrow> bool" where
  "aligned df = list_all (\<lambda>r. map fst r = columns df) (rows df)"

definition typed :: "dataframe \<Rightarrow> bool" where
  "typed df =
     list_all (\<lambda>r. list_all (\<lambda>(k, v). is_Str v \<longrightarrow> map_of (dtypes df) k = Some Object) r)
       (rows df)"

definition wf :: "dataframe \<Rightarrow> bool" where
  "wf df = (distinct (columns df) \<and> aligned df \<and> typed df)"

fun isna :: "cell \<Rightarrow> bool" where
  "isna NA = True"
| "isna PyNone = True"
| "isna c = False"

definition cell_of :: "row \<Rightarrow> py_str \<Rightarrow> cell" where
  "cell_of r col = (case map_of r col of Some v \<Rightarrow> v | None \<Rightarrow> NA)"

text \<open>\<^verbatim>\<open>df[col]\<close> reads a column, or raises \<^verbatim>\<open>KeyError\<close> when there is no such label.\<close>

definition getitem :: "dataframe \<Rightarrow> py_str \<Rightarrow> py_error + cell list" where
  "getitem df col =
     (if col \<in> set (columns df) then Inr (map (\<lambda>r. cell_of r col) (rows df))
      else Inl KeyError)"

text \<open>
  \<^verbatim>\<open>df[col] = values\<close>, with one value per row of \<open>df\<close>: the column is replaced where
  it stands, or added as the last column when the label is new.
\<close>

definition setitem :: "dataframe \<Rightarrow> py_str \<Rightarrow> dtype \<Rightarrow> cell list \<Rightarrow> dataframe" where
  "setitem df col dt vals =
     \<lparr>dtypes = AList.update col dt (dtypes df),
      rows = map (\<lambda>(r, v). AList.update col v r) (zip (rows df) vals)\<rparr>"

text \<open>
  The result of \<^verbatim>\<open>Series.apply\<close> from the values the function returned. On an empty
  series the result has the dtype of the series. Otherwise pandas infers the dtype from the
  values: \<^verbatim>\<open>object\<close> when a string is among them or when every value is
  \<^verbatim>\<open>None\<close>, and a numeric dtype when they are integers and missing values, where a
  \<^verbatim>\<open>None\<close> becomes \<^verbatim>\<open>NaN\<close>.
\<close>

definition infer_dtype :: "dtype option \<Rightarrow> cell list \<Rightarrow> dtype" where
  "infer_dtype old vals =
     (if vals = [] then (case old of Some dt \<Rightarrow> dt | None \<Rightarrow> Object)
      else if list_ex is_Str vals then Object
      else if list_all (\<lambda>v. v = PyNone) vals then Object
      else Numeric)"

definition map_infer :: "dtype option \<Rightarrow> cell list \<Rightarrow> dtype \<times> cell list" where
  "map_infer old vals =
     (let dt = infer_dtype old vals
      in (dt, if dt = Numeric then map (\<lambda>v. if v = PyNone then NA else v) vals else vals))"

text \<open>
  \<^verbatim>\<open>df.dropna()\<close> with its defaults \<^verbatim>\<open>axis=0, how='any'\<close> keeps the rows without a
  missing value, \<^verbatim>\<open>NaN\<close> or \<^verbatim>\<open>None\<close>. \<^verbatim>\<open>df.drop_duplicates()\<close> with its default
  \<^verbatim>\<open>keep='first'\<close> keeps a row when no earlier row has the same value in every column.
  The task calls it on what \<^verbatim>\<open>dropna\<close> left, where no value is missing, so two values
  are the same when they are equal.
\<close>

definition dropna :: "dataframe \<Rightarrow> dataframe" where
  "dropna df = df\<lparr>rows := filter (\<lambda>r. list_all (\<lambda>kv. \<not> isna (snd kv)) r) (rows df)\<rparr>"

fun first_occurrences :: "'a list \<Rightarrow> 'a list \<Rightarrow> 'a list" where
  "first_occurrences seen [] = []"
| "first_occurrences seen (x # xs) =
     (if x \<in> set seen then first_occurrences seen xs
      else x # first_occurrences (x # seen) xs)"

definition drop_duplicates :: "dataframe \<Rightarrow> dataframe" where
  "drop_duplicates df = df\<lparr>rows := first_occurrences [] (rows df)\<rparr>"

text \<open>
  \<^verbatim>\<open>df.drop(columns=labels)\<close> with its default \<^verbatim>\<open>errors='raise'\<close>: a label that is not
  a column raises \<^verbatim>\<open>KeyError\<close> before anything is dropped.
\<close>

definition drop_columns :: "py_str list \<Rightarrow> dataframe \<Rightarrow> py_error + dataframe" where
  "drop_columns labels df =
     (if list_all (\<lambda>l. l \<in> set (columns df)) labels
      then Inr \<lparr>dtypes = filter (\<lambda>kv. fst kv \<notin> set labels) (dtypes df),
                rows = map (filter (\<lambda>kv. fst kv \<notin> set labels)) (rows df)\<rparr>
      else Inl KeyError)"

subsection \<open>Strings\<close>

text \<open>
  \<^verbatim>\<open>str.rstrip()\<close> and \<^verbatim>\<open>str.lstrip()\<close> without an argument remove the whitespace at
  one end, and whitespace is what \<^verbatim>\<open>str.isspace\<close> accepts: the code points U+0009 to
  U+000D, U+001C to U+0020, U+0085, U+00A0, U+1680, U+2000 to U+200A, U+2028, U+2029,
  U+202F, U+205F and U+3000.
\<close>

definition isspace :: "nat \<Rightarrow> bool" where
  "isspace c =
     ((9 \<le> c \<and> c \<le> 13) \<or> (28 \<le> c \<and> c \<le> 32) \<or> c = 133 \<or> c = 160 \<or> c = 5760
      \<or> (8192 \<le> c \<and> c \<le> 8202) \<or> c = 8232 \<or> c = 8233 \<or> c = 8239 \<or> c = 8287
      \<or> c = 12288)"

definition lstrip :: "py_str \<Rightarrow> py_str" where
  "lstrip s = dropWhile isspace s"

definition rstrip :: "py_str \<Rightarrow> py_str" where
  "rstrip s = rev (dropWhile isspace (rev s))"

subsection \<open>The task \<^verbatim>\<open>preprocessing\<close>\<close>

text \<open>
  Every statement of the task works on the one dataframe object that \<^verbatim>\<open>df\<close> names:
  \<^verbatim>\<open>dropna\<close>, \<^verbatim>\<open>drop_duplicates\<close> and \<^verbatim>\<open>drop\<close> are called with
  \<^verbatim>\<open>inplace=True\<close>, the other statements assign to a column of \<^verbatim>\<open>df\<close>, and the task
  returns \<^verbatim>\<open>df\<close>. So the task is a function from the contents of that object when it
  starts to its contents when it ends, by a \<^verbatim>\<open>return\<close> or by an exception.
\<close>

datatype outcome = Raised py_error dataframe | Returned dataframe

fun and_then :: "outcome \<Rightarrow> (dataframe \<Rightarrow> outcome) \<Rightarrow> outcome" where
  "and_then (Raised e df) f = Raised e df"
| "and_then (Returned df) f = f df"

text \<open>\<^verbatim>\<open>df[col] = df[col].apply(f)\<close>: an exception leaves \<open>df\<close> as it is.\<close>

definition assign_apply :: "(cell \<Rightarrow> py_error + cell) \<Rightarrow> py_str \<Rightarrow> dataframe \<Rightarrow> outcome" where
  "assign_apply f col df =
     (case getitem df col of
        Inl e \<Rightarrow> Raised e df
      | Inr xs \<Rightarrow>
          (case series_apply f xs of
             Inl e \<Rightarrow> Raised e df
           | Inr vs \<Rightarrow>
               (let (dt, vals) = map_infer (map_of (dtypes df) col) vs
                in Returned (setitem df col dt vals))))"

text \<open>\<^verbatim>\<open>lambda x: x.rstrip().lstrip()\<close>; only a \<^verbatim>\<open>str\<close> has these methods.\<close>

fun strip_both :: "cell \<Rightarrow> py_error + cell" where
  "strip_both (Str s) = Inr (Str (lstrip (rstrip s)))"
| "strip_both (Num n) = Inl AttributeError"
| "strip_both NA = Inl AttributeError"
| "strip_both PyNone = Inl AttributeError"

text \<open>\<^verbatim>\<open>lambda x: 'Unknown' if x == '?' else x\<close>\<close>

definition unknown_if_question :: "cell \<Rightarrow> py_error + cell" where
  "unknown_if_question x = Inr (if x = Str (lit ''?'') then Str (lit ''Unknown'') else x)"

text \<open>The loop of lines 65 to 68 over the column labels.\<close>

fun strip_object_columns :: "py_str list \<Rightarrow> dataframe \<Rightarrow> outcome" where
  "strip_object_columns [] df = Returned df"
| "strip_object_columns (col # cols) df =
     (if map_of (dtypes df) col = Some Object
      then and_then (assign_apply strip_both col df) (strip_object_columns cols)
      else strip_object_columns cols df)"

definition drop_inplace :: "py_str list \<Rightarrow> dataframe \<Rightarrow> outcome" where
  "drop_inplace labels df =
     (case drop_columns labels df of Inl e \<Rightarrow> Raised e df | Inr df' \<Rightarrow> Returned df')"

definition preprocessing :: "dataframe \<Rightarrow> outcome" where
  "preprocessing df0 =
     (let df = dropna df0;
          df = drop_duplicates df;
          cols = columns df
      in and_then (strip_object_columns cols df) (\<lambda>df.
         and_then (assign_apply unknown_if_question (lit ''workclass'') df) (\<lambda>df.
         and_then (assign_apply unknown_if_question (lit ''occupation'') df) (\<lambda>df.
         and_then (assign_apply unknown_if_question (lit ''native_country'') df) (\<lambda>df.
         drop_inplace [lit ''education_num'', lit ''relationship'', lit ''functional_weight'']
           df)))))"

text \<open>
  The caller's side: dataframe objects live in a store, a variable holds a reference, and
  the task receives the reference of its argument. It returns that same reference, or raises.
\<close>

type_synonym ref = nat

type_synonym store = "ref \<Rightarrow> dataframe"

definition preprocessing_task :: "ref \<Rightarrow> store \<Rightarrow> (py_error + ref) \<times> store" where
  "preprocessing_task df h =
     (case preprocessing (h df) of
        Returned d \<Rightarrow> (Inr df, h(df := d))
      | Raised e d \<Rightarrow> (Inl e, h(df := d)))"

subsection \<open>Thresholding the predictions\<close>

text \<open>
  \<^verbatim>\<open>np.where(y_pred > 0.5, 1, 0)\<close>, line 172. The predictions are float64 values; on
  finite float64 values the comparison is the order of the reals they denote, and \<open>0.5\<close> is
  a float64 value, so a prediction is a real number here.
\<close>

definition np_where_gt :: "real list \<Rightarrow> real \<Rightarrow> int \<Rightarrow> int \<Rightarrow> int list" where
  "np_where_gt y t a b = map (\<lambda>p. if p > t then a else b) y"

definition y_pred_class :: "real list \<Rightarrow> int list" where
  "y_pred_class y_pred = np_where_gt y_pred (1 / 2) 1 0"

subsection \<open>The calls to the tracking backend\<close>

text \<open>
  Lines 138 to 150 of \<^verbatim>\<open>cross_validation\<close>. Each call to mlflow either returns or
  raises; what it does is the backend's choice, so the backend is a function from the call to
  the exception it raises, if any. The \<^verbatim>\<open>try\<close> around \<^verbatim>\<open>create_experiment\<close> has a
  bare \<^verbatim>\<open>except: pass\<close>, which catches every exception whatever its class.
  The result is the list of calls made, in order, and the exception that left the task.
\<close>

datatype exn = ResourceAlreadyExists | ConnectionFailure | PermissionDenied | KeyboardInterrupt

datatype call = Set_tracking_uri | Create_experiment | Set_experiment | Autolog | Start_run

type_synonym backend = "call \<Rightarrow> exn option"

definition try_except_pass :: "exn option \<Rightarrow> exn option" where
  "try_except_pass r = (case r of None \<Rightarrow> None | Some e \<Rightarrow> None)"

fun calls_in_order :: "backend \<Rightarrow> (call \<times> bool) list \<Rightarrow> call list \<times> exn option" where
  "calls_in_order b [] = ([], None)"
| "calls_in_order b ((c, guarded) # cs) =
     (case (if guarded then try_except_pass (b c) else b c) of
        Some e \<Rightarrow> ([c], Some e)
      | None \<Rightarrow> (let (tr, r) = calls_in_order b cs in (c # tr, r)))"

definition cross_validation_tracking :: "backend \<Rightarrow> call list \<times> exn option" where
  "cross_validation_tracking b =
     calls_in_order b
       [(Set_tracking_uri, False), (Create_experiment, True), (Set_experiment, False),
        (Autolog, False), (Start_run, False)]"

subsection \<open>The train/validation split\<close>

text \<open>
  \<^verbatim>\<open>train_test_split(X, y, test_size=0.2, random_state=55)\<close>, line 132. scikit-learn
  takes \<open>n_test = ceil(0.2 * n)\<close> rows for validation and the other \<open>n - n_test\<close> for
  training, and refuses an empty training set. With \<^verbatim>\<open>random_state=None\<close> it draws from
  numpy's global generator, whose state is whatever the process left there; with an integer it
  builds a fresh generator from that seed. It then takes one permutation of the row numbers:
  the first \<open>n_test\<close> entries are the validation rows, the next \<open>n_train\<close> the training rows.
  numpy's generator is not part of the repository: it is a parameter, a function from a seed
  to a generator state and one from a state to a permutation and the next state.
\<close>

record 'g rng =
  RandomState :: "nat \<Rightarrow> 'g"
  permutation :: "'g \<Rightarrow> nat \<Rightarrow> nat list \<times> 'g"

definition n_test_rows :: "nat \<Rightarrow> nat" where
  "n_test_rows n = (n + 4) div 5"

definition train_test_split ::
  "'g rng \<Rightarrow> 'g \<Rightarrow> 'a list \<Rightarrow> 'b list \<Rightarrow> nat option \<Rightarrow>
     (py_error + ('a list \<times> 'a list \<times> 'b list \<times> 'b list)) \<times> 'g" where
  "train_test_split np global X y random_state =
     (let n = length X; n_test = n_test_rows n; n_train = n - n_test in
      if length y \<noteq> n \<or> n_train = 0 then (Inl ValueError, global)
      else
        (let (perm, global') =
               (case random_state of
                  None \<Rightarrow> permutation np global n
                | Some s \<Rightarrow> (fst (permutation np (RandomState np s) n), global));
             ind_test = take n_test perm;
             ind_train = take n_train (drop n_test perm)
         in (Inr (map (\<lambda>i. X ! i) ind_train, map (\<lambda>i. X ! i) ind_test,
                  map (\<lambda>i. y ! i) ind_train, map (\<lambda>i. y ! i) ind_test), global')))"

definition cross_validation_split ::
  "'g rng \<Rightarrow> 'g \<Rightarrow> 'a list \<Rightarrow> 'b list \<Rightarrow>
     (py_error + ('a list \<times> 'a list \<times> 'b list \<times> 'b list)) \<times> 'g" where
  "cross_validation_split np global X y = train_test_split np global X y (Some 55)"

section \<open>Properties\<close>

subsection \<open>Age binning\<close>

lemma age_bins_Num:
  "age_bins (map Num xs) = Inr (map (cut_value [16, 29, 39, 49, 59, 100] [1, 2, 3, 4, 5]) xs)"
  by (induction xs) (simp_all add: age_bins_def pd_cut_def)

lemma cut_value_age:
  "cut_value [16, 29, 39, 49, 59, 100] [1, 2, 3, 4, 5] a =
     (if 17 \<le> a \<and> a \<le> 29 then Num 1
      else if 30 \<le> a \<and> a \<le> 39 then Num 2
      else if 40 \<le> a \<and> a \<le> 49 then Num 3
      else if 50 \<le> a \<and> a \<le> 59 then Num 4
      else if 60 \<le> a \<and> a \<le> 100 then Num 5
      else NA)"
  by (simp add: cut_value_def searchsorted_left_def)

text \<open>
  Claim C2, as the code has it. Line 104 passes the six edges 16, 29, 39, 49, 59 and 100
  and the five labels 1 to 5 to \<^verbatim>\<open>pd.cut\<close>, whose intervals are open on the left and
  closed on the right. So the ages 17 to 29 fall in bucket 1, 30 to 39 in bucket 2, 40 to 49
  in bucket 3, 50 to 59 in bucket 4 and 60 to 100 in bucket 5, and every other age, the edge
  16 among them, gets no bucket. At the boundaries: 15 and 16 are unmapped, 17 and 29 map
  to 1, 30 to 2, 59 to 4, 60 and 100 to 5, and 101 is unmapped.
\<close>

theorem age_bins_buckets:
  "age_bins (map Num xs) =
     Inr (map (\<lambda>a. if 17 \<le> a \<and> a \<le> 29 then Num 1
                   else if 30 \<le> a \<and> a \<le> 39 then Num 2
                   else if 40 \<le> a \<and> a \<le> 49 then Num 3
                   else if 50 \<le> a \<and> a \<le> 59 then Num 4
                   else if 60 \<le> a \<and> a \<le> 100 then Num 5
                   else NA) xs)
   \<and> age_bins (map Num [15, 16, 17, 29, 30, 59, 60, 100, 101]) =
       Inr [NA, NA, Num 1, Num 1, Num 2, Num 4, Num 5, Num 5, NA]"
proof -
  have "age_bins (map Num ys) =
     Inr (map (\<lambda>a. if 17 \<le> a \<and> a \<le> 29 then Num 1
                   else if 30 \<le> a \<and> a \<le> 39 then Num 2
                   else if 40 \<le> a \<and> a \<le> 49 then Num 3
                   else if 50 \<le> a \<and> a \<le> 59 then Num 4
                   else if 60 \<le> a \<and> a \<le> 100 then Num 5
                   else NA) ys)" for ys
    unfolding age_bins_Num cut_value_age ..
  from this [of xs] this [of "[15, 16, 17, 29, 30, 59, 60, 100, 101]"]
  show ?thesis by simp
qed

text \<open>
  Claim C2 as the specification states it puts age 16 in bucket 1. The code leaves age 16
  without a bucket: 16 is the open left end of the first interval.
\<close>

theorem age_bins_16_counterexample:
  "age_bins [Num 16] = Inr [NA] \<and> age_bins [Num 16] \<noteq> Inr [Num 1]"
  by (simp add: age_bins_def pd_cut_def cut_value_def searchsorted_left_def)

subsection \<open>Thresholding\<close>

text \<open>
  Claim C9. The class predictions are as many as the predicted probabilities, and each one
  is 1 exactly when its probability is strictly greater than 0.5 and 0 otherwise; a
  probability of exactly 0.5 gives class 0.
\<close>

theorem y_pred_class_threshold:
  "length (y_pred_class y_pred) = length y_pred
   \<and> (\<forall>i < length y_pred.
         (y_pred_class y_pred ! i = 1) = (y_pred ! i > 1 / 2)
       \<and> (y_pred_class y_pred ! i = 0) = (y_pred ! i \<le> 1 / 2))
   \<and> y_pred_class [1 / 2] = [0]"
  by (simp add: y_pred_class_def np_where_gt_def)

theorem y_pred_class_threshold_witness:
  "y_pred_class [1 / 2, 7 / 10, 3 / 10] ! 0 = 0
   \<and> y_pred_class [1 / 2, 7 / 10, 3 / 10] ! 1 = 1
   \<and> y_pred_class [1 / 2, 7 / 10, 3 / 10] ! 2 = 0"
proof -
  let ?ps = "[1 / 2, 7 / 10, 3 / 10] :: real list"
  have a: "\<forall>i < length ?ps.
         (y_pred_class ?ps ! i = 1) = (?ps ! i > 1 / 2)
       \<and> (y_pred_class ?ps ! i = 0) = (?ps ! i \<le> 1 / 2)"
    using y_pred_class_threshold [of ?ps] by blast
  have "(y_pred_class ?ps ! 0 = 0) = (?ps ! 0 \<le> 1 / 2)"
    and "(y_pred_class ?ps ! 1 = 1) = (?ps ! 1 > 1 / 2)"
    and "(y_pred_class ?ps ! 2 = 0) = (?ps ! 2 \<le> 1 / 2)"
    using a by simp_all
  then show ?thesis by simp
qed

subsection \<open>Creating the experiment\<close>

text \<open>
  The \<^verbatim>\<open>try\<close> of lines 139 to 143 hides whatever \<^verbatim>\<open>create_experiment\<close> raises: the
  task goes on exactly as if the call had returned.
\<close>

lemma create_experiment_outcome_ignored:
  "cross_validation_tracking (b(Create_experiment := Some e)) =
     cross_validation_tracking (b(Create_experiment := None))"
  by (simp add: cross_validation_tracking_def try_except_pass_def
      split: option.splits prod.splits)

text \<open>
  Claim C1 asks that only the error that the experiment already exists be swallowed and
  that every other error of the creation abort the stage. The code does not do that. With a
  backend that refuses the connection at \<^verbatim>\<open>create_experiment\<close> and accepts every other
  call, the task makes all five calls and no exception leaves it; the same holds of a
  \<^verbatim>\<open>KeyboardInterrupt\<close> raised there. The same refusal at the next call,
  \<^verbatim>\<open>set_experiment\<close>, which no \<^verbatim>\<open>try\<close> guards, does abort the stage.
\<close>

theorem create_experiment_failure_swallowed:
  "ConnectionFailure \<noteq> ResourceAlreadyExists
   \<and> cross_validation_tracking ((\<lambda>c. None)(Create_experiment := Some ConnectionFailure)) =
       ([Set_tracking_uri, Create_experiment, Set_experiment, Autolog, Start_run], None)
   \<and> cross_validation_tracking ((\<lambda>c. None)(Create_experiment := Some KeyboardInterrupt)) =
       ([Set_tracking_uri, Create_experiment, Set_experiment, Autolog, Start_run], None)
   \<and> cross_validation_tracking ((\<lambda>c. None)(Set_experiment := Some ConnectionFailure)) =
       ([Set_tracking_uri, Create_experiment, Set_experiment], Some ConnectionFailure)"
  by (simp add: cross_validation_tracking_def try_except_pass_def)

subsection \<open>The split\<close>

text \<open>
  Claim C8. The split that \<^verbatim>\<open>cross_validation\<close> makes is a function of its input alone:
  whatever state the process-wide generator is in when the task runs, the same rows go to
  the training subset and the same rows to the validation subset, and the process-wide
  generator is left as it was. (With \<^verbatim>\<open>random_state=None\<close> the permutation would be
  drawn from the process-wide generator.)
\<close>

theorem cross_validation_split_deterministic:
  "fst (cross_validation_split np global1 X y) = fst (cross_validation_split np global2 X y)
   \<and> snd (cross_validation_split np global1 X y) = global1"
  by (simp add: cross_validation_split_def train_test_split_def Let_def split: prod.splits)

end
